theory Spec2Isabelle
  imports Main
begin

section \<open>The ESP32 memory map of \<open>soc/espressif/esp32/memory.h\<close>\<close>

text \<open>
  The header is a list of object-like and function-like macros over two kinds of
  inputs: devicetree lookups (\<open>DT_REG_ADDR\<close>, \<open>DT_REG_SIZE\<close>) and Kconfig symbols
  (\<open>CONFIG_...\<close>). Both are parameters here, gathered in one record. A Kconfig symbol
  that the header only tests with \<open>defined(...)\<close> is a \<open>bool\<close> (defined or not);
  \<open>CONFIG_FLASH_SIZE\<close>, tested with \<open>#ifdef\<close> and then used as a value, is an
  \<open>int option\<close>; a symbol used as a value is an \<open>int\<close>.

  Every macro is an integer expression of additions, subtractions and one conditional
  on a comparison over these inputs. The header has no \<open>#error\<close>, no assertion and no
  other check, so every macro that is defined has a value.

  The values are mathematical integers (\<open>int\<close>): a difference may be negative. The
  consumers of the header (C code and linker scripts) compute in a fixed width; the
  addresses and sizes of the ESP32 are all below \<open>2^31\<close>, so the sums of the header
  do not wrap there, and a negative difference of the model is a negative \<open>int\<close> of C.
\<close>

record config =
  dt_sram0_addr :: int
  dt_sram0_size :: int
  dt_sram1_addr :: int
  dt_sram1_size :: int
  dt_sram2_addr :: int
  dt_sram2_size :: int
  dt_code_partition_addr :: int
  dt_code_partition_size :: int
  CONFIG_SOC_ENABLE_APPCPU :: bool
  CONFIG_SOC_ESP32_APPCPU :: bool
  CONFIG_MCUBOOT :: bool
  CONFIG_BOOTLOADER_MCUBOOT :: bool
  CONFIG_ESP32_MCUBOOT_IRAM :: int
  CONFIG_ESP32_SRAM1_HEAP_SIZE :: int
  CONFIG_ESP32_BT_RESERVE_DRAM :: int
  CONFIG_ESP_APPCPU_IRAM_SIZE :: int
  CONFIG_ESP_APPCPU_DRAM_SIZE :: int
  CONFIG_FLASH_SIZE :: "int option"
  CONFIG_MMU_PAGE_SIZE :: int

subsection \<open>SRAM banks (lines 105-113)\<close>

definition SRAM0_START :: "config \<Rightarrow> int" where
  "SRAM0_START c = dt_sram0_addr c"

definition SRAM0_SIZE :: "config \<Rightarrow> int" where
  "SRAM0_SIZE c = dt_sram0_size c"

definition SRAM1_START :: "config \<Rightarrow> int" where
  "SRAM1_START c = dt_sram1_addr c"

definition SRAM1_SIZE :: "config \<Rightarrow> int" where
  "SRAM1_SIZE c = dt_sram1_size c"

definition SRAM2_START :: "config \<Rightarrow> int" where
  "SRAM2_START c = dt_sram2_addr c"

definition SRAM2_SIZE :: "config \<Rightarrow> int" where
  "SRAM2_SIZE c = dt_sram2_size c"

subsection \<open>External memory cache (lines 119-127)\<close>

text \<open>The condition of the two \<open>#if\<close>s at lines 123 and 205.\<close>

definition appcpu_defined :: "config \<Rightarrow> bool" where
  "appcpu_defined c \<longleftrightarrow> CONFIG_SOC_ENABLE_APPCPU c \<or> CONFIG_SOC_ESP32_APPCPU c"

definition CACHE_START :: "config \<Rightarrow> int" where
  "CACHE_START c = SRAM0_START c"

definition CACHE_SIZE_SINGLE_CPU :: int where
  "CACHE_SIZE_SINGLE_CPU = 0x8000"

definition CACHE_SIZE_DUAL_CPU :: int where
  "CACHE_SIZE_DUAL_CPU = 0x10000"

definition CACHE_SIZE :: "config \<Rightarrow> int" where
  "CACHE_SIZE c = (if appcpu_defined c then CACHE_SIZE_SINGLE_CPU else CACHE_SIZE_DUAL_CPU)"

subsection \<open>Second stage bootloader (lines 133-160)\<close>

text \<open>
  The condition of the \<open>#if\<close> at line 133. The macros of its first branch exist only
  when it holds: they are \<open>int option\<close>, \<open>None\<close> for a macro that is not defined.
  \<open>BOOTLOADER_IRAM_RESERVED\<close> is defined in both branches.
\<close>

definition mcuboot_defined :: "config \<Rightarrow> bool" where
  "mcuboot_defined c \<longleftrightarrow> CONFIG_MCUBOOT c \<or> CONFIG_BOOTLOADER_MCUBOOT c"

definition BOOTLOADER_IRAM_LOADER_START :: "config \<Rightarrow> int option" where
  "BOOTLOADER_IRAM_LOADER_START c =
     (if mcuboot_defined c then Some (SRAM0_START c + CACHE_SIZE_SINGLE_CPU) else None)"

definition BOOTLOADER_IRAM_LOADER_SIZE :: "config \<Rightarrow> int option" where
  "BOOTLOADER_IRAM_LOADER_SIZE c =
     (if mcuboot_defined c then Some (CONFIG_ESP32_MCUBOOT_IRAM c) else None)"

definition BOOTLOADER_IRAM_RESERVED :: "config \<Rightarrow> int" where
  "BOOTLOADER_IRAM_RESERVED c =
     (case BOOTLOADER_IRAM_LOADER_SIZE c of
        Some loader_size \<Rightarrow> CACHE_SIZE_SINGLE_CPU + loader_size
      | None \<Rightarrow> 0)"

definition BOOTLOADER_IRAM_START :: "config \<Rightarrow> int option" where
  "BOOTLOADER_IRAM_START c =
     (case (BOOTLOADER_IRAM_LOADER_START c, BOOTLOADER_IRAM_LOADER_SIZE c) of
        (Some loader_start, Some loader_size) \<Rightarrow> Some (loader_start + loader_size)
      | _ \<Rightarrow> None)"

definition BOOTLOADER_IRAM_SIZE :: "config \<Rightarrow> int option" where
  "BOOTLOADER_IRAM_SIZE c =
     (if mcuboot_defined c then Some (SRAM0_SIZE c - BOOTLOADER_IRAM_RESERVED c) else None)"

definition BOOTLOADER_DRAM_START :: "config \<Rightarrow> int option" where
  "BOOTLOADER_DRAM_START c = (if mcuboot_defined c then Some 0x3ffe8000 else None)"

definition BOOTLOADER_DRAM_SIZE :: "config \<Rightarrow> int option" where
  "BOOTLOADER_DRAM_SIZE c = (if mcuboot_defined c then Some 0x18000 else None)"

subsection \<open>Application (lines 166-195)\<close>

definition SRAM1_RESERVED :: int where
  "SRAM1_RESERVED = 0x8000"

definition SRAM1_DRAM_SIZE :: "config \<Rightarrow> int" where
  "SRAM1_DRAM_SIZE c = CONFIG_ESP32_SRAM1_HEAP_SIZE c"

definition SRAM1_IRAM_SIZE :: "config \<Rightarrow> int" where
  "SRAM1_IRAM_SIZE c = SRAM1_SIZE c - SRAM1_RESERVED - CONFIG_ESP32_SRAM1_HEAP_SIZE c"

definition IRAM_RESERVED :: "config \<Rightarrow> int" where
  "IRAM_RESERVED c =
     (if CACHE_SIZE c > BOOTLOADER_IRAM_RESERVED c then CACHE_SIZE c
      else BOOTLOADER_IRAM_RESERVED c)"

definition IRAM_START :: "config \<Rightarrow> int" where
  "IRAM_START c = SRAM0_START c + IRAM_RESERVED c"

definition IRAM_SIZE :: "config \<Rightarrow> int" where
  "IRAM_SIZE c = SRAM0_SIZE c - IRAM_RESERVED c + SRAM1_IRAM_SIZE c"

definition DRAM_RESERVED :: "config \<Rightarrow> int" where
  "DRAM_RESERVED c = 0x2000 + CONFIG_ESP32_BT_RESERVE_DRAM c"

definition DRAM_START :: "config \<Rightarrow> int" where
  "DRAM_START c = SRAM2_START c + DRAM_RESERVED c"

definition DRAM_SIZE :: "config \<Rightarrow> int" where
  "DRAM_SIZE c = SRAM2_SIZE c - DRAM_RESERVED c"

text \<open>
  \<open>HEAP_START\<close> is written without parentheses in the header; as a value of its own
  (not as an operand of a tighter operator) it is this sum.
\<close>

definition HEAP_START :: "config \<Rightarrow> int" where
  "HEAP_START c = SRAM1_START c + SRAM1_RESERVED"

definition HEAP_SIZE :: "config \<Rightarrow> int" where
  "HEAP_SIZE c = SRAM1_DRAM_SIZE c"

subsection \<open>Pro and App CPU memory (lines 204-220)\<close>

definition APPCPU_IRAM_SIZE :: "config \<Rightarrow> int" where
  "APPCPU_IRAM_SIZE c = (if appcpu_defined c then CONFIG_ESP_APPCPU_IRAM_SIZE c else 0)"

definition APPCPU_DRAM_SIZE :: "config \<Rightarrow> int" where
  "APPCPU_DRAM_SIZE c = (if appcpu_defined c then CONFIG_ESP_APPCPU_DRAM_SIZE c else 0)"

definition APPCPU_IRAM_START :: "config \<Rightarrow> int" where
  "APPCPU_IRAM_START c = IRAM_START c + IRAM_SIZE c - APPCPU_IRAM_SIZE c"

definition APPCPU_DRAM_START :: "config \<Rightarrow> int" where
  "APPCPU_DRAM_START c = DRAM_START c + DRAM_SIZE c - APPCPU_DRAM_SIZE c"

definition PROCPU_IRAM_START :: "config \<Rightarrow> int" where
  "PROCPU_IRAM_START c = IRAM_START c"

definition PROCPU_IRAM_SIZE :: "config \<Rightarrow> int" where
  "PROCPU_IRAM_SIZE c = IRAM_SIZE c - APPCPU_IRAM_SIZE c"

definition PROCPU_DRAM_START :: "config \<Rightarrow> int" where
  "PROCPU_DRAM_START c = DRAM_START c"

definition PROCPU_DRAM_SIZE :: "config \<Rightarrow> int" where
  "PROCPU_DRAM_SIZE c = DRAM_SIZE c - APPCPU_DRAM_SIZE c"

subsection \<open>Flash and cached memories (lines 222-237)\<close>

definition FLASH_SIZE :: "config \<Rightarrow> int" where
  "FLASH_SIZE c = (case CONFIG_FLASH_SIZE c of Some n \<Rightarrow> n | None \<Rightarrow> 0x400000)"

definition FLASH_CODE_START :: "config \<Rightarrow> int" where
  "FLASH_CODE_START c = dt_code_partition_addr c"

definition FLASH_CODE_SIZE :: "config \<Rightarrow> int" where
  "FLASH_CODE_SIZE c = dt_code_partition_size c"

definition CACHE_ALIGN :: "config \<Rightarrow> int" where
  "CACHE_ALIGN c = CONFIG_MMU_PAGE_SIZE c"

definition IROM_SEG_ORG :: int where
  "IROM_SEG_ORG = 0x400d0000"

definition IROM_SEG_LEN :: "config \<Rightarrow> int" where
  "IROM_SEG_LEN c = FLASH_SIZE c - 0x1000"

definition DROM_SEG_ORG :: int where
  "DROM_SEG_ORG = 0x3f400000"

definition DROM_SEG_LEN :: "config \<Rightarrow> int" where
  "DROM_SEG_LEN c = FLASH_SIZE c - 0x1000"

subsection \<open>IRAM / DRAM address conversion in SRAM1 (lines 250-258)\<close>

text \<open>
  The two function-like macros take the address as an integer value. (Their bodies use
  the parameter without parentheses, as the left operand of a subtraction, so an
  argument that is a primary or an additive expression is read as that value.)
\<close>

definition SRAM1_IRAM_START :: "config \<Rightarrow> int" where
  "SRAM1_IRAM_START c = SRAM0_START c + SRAM0_SIZE c"

definition SRAM1_DRAM_START :: "config \<Rightarrow> int" where
  "SRAM1_DRAM_START c = SRAM1_START c"

definition SRAM1_IRAM_DRAM_CALC :: "config \<Rightarrow> int \<Rightarrow> int" where
  "SRAM1_IRAM_DRAM_CALC c addr_iram =
     SRAM1_SIZE c - (addr_iram - SRAM1_IRAM_START c) + SRAM1_DRAM_START c"

definition SRAM1_DRAM_IRAM_CALC :: "config \<Rightarrow> int \<Rightarrow> int" where
  "SRAM1_DRAM_IRAM_CALC c addr_dram =
     SRAM1_SIZE c - (addr_dram - SRAM1_DRAM_START c) + SRAM1_IRAM_START c"

subsection \<open>Regions\<close>

text \<open>
  A region is a start address with a size, as the header's pairs \<open>X_START\<close>, \<open>X_SIZE\<close>
  (or \<open>X_ORG\<close>, \<open>X_LEN\<close>). It stands for the half-open interval of addresses
  \<open>[rbase, rbase + rsize)\<close>, which is empty when the size is zero or negative.
\<close>

record region =
  rbase :: int
  rsize :: int

definition region_end :: "region \<Rightarrow> int" where
  "region_end r = rbase r + rsize r"

definition region_addrs :: "region \<Rightarrow> int set" where
  "region_addrs r = {rbase r ..< region_end r}"

definition region_disjoint :: "region \<Rightarrow> region \<Rightarrow> bool" where
  "region_disjoint a b \<longleftrightarrow>
     rsize a \<le> 0 \<or> rsize b \<le> 0 \<or> region_end a \<le> rbase b \<or> region_end b \<le> rbase a"


definition cache_region :: "config \<Rightarrow> region" where
  "cache_region c = \<lparr>rbase = CACHE_START c, rsize = CACHE_SIZE c\<rparr>"

definition loader_critical_region :: "config \<Rightarrow> region option" where
  "loader_critical_region c =
     (case (BOOTLOADER_IRAM_LOADER_START c, BOOTLOADER_IRAM_LOADER_SIZE c) of
        (Some s, Some n) \<Rightarrow> Some \<lparr>rbase = s, rsize = n\<rparr>
      | _ \<Rightarrow> None)"

definition loader_reclaimable_region :: "config \<Rightarrow> region option" where
  "loader_reclaimable_region c =
     (case (BOOTLOADER_IRAM_START c, BOOTLOADER_IRAM_SIZE c) of
        (Some s, Some n) \<Rightarrow> Some \<lparr>rbase = s, rsize = n\<rparr>
      | _ \<Rightarrow> None)"

definition iram_region :: "config \<Rightarrow> region" where
  "iram_region c = \<lparr>rbase = IRAM_START c, rsize = IRAM_SIZE c\<rparr>"

definition dram_region :: "config \<Rightarrow> region" where
  "dram_region c = \<lparr>rbase = DRAM_START c, rsize = DRAM_SIZE c\<rparr>"

definition procpu_iram_region :: "config \<Rightarrow> region" where
  "procpu_iram_region c = \<lparr>rbase = PROCPU_IRAM_START c, rsize = PROCPU_IRAM_SIZE c\<rparr>"

definition appcpu_iram_region :: "config \<Rightarrow> region" where
  "appcpu_iram_region c = \<lparr>rbase = APPCPU_IRAM_START c, rsize = APPCPU_IRAM_SIZE c\<rparr>"

definition procpu_dram_region :: "config \<Rightarrow> region" where
  "procpu_dram_region c = \<lparr>rbase = PROCPU_DRAM_START c, rsize = PROCPU_DRAM_SIZE c\<rparr>"

definition appcpu_dram_region :: "config \<Rightarrow> region" where
  "appcpu_dram_region c = \<lparr>rbase = APPCPU_DRAM_START c, rsize = APPCPU_DRAM_SIZE c\<rparr>"

definition heap_region :: "config \<Rightarrow> region" where
  "heap_region c = \<lparr>rbase = HEAP_START c, rsize = HEAP_SIZE c\<rparr>"

definition bootloader_dram_region :: "config \<Rightarrow> region option" where
  "bootloader_dram_region c =
     (case (BOOTLOADER_DRAM_START c, BOOTLOADER_DRAM_SIZE c) of
        (Some s, Some n) \<Rightarrow> Some \<lparr>rbase = s, rsize = n\<rparr>
      | _ \<Rightarrow> None)"

definition irom_region :: "config \<Rightarrow> region" where
  "irom_region c = \<lparr>rbase = IROM_SEG_ORG, rsize = IROM_SEG_LEN c\<rparr>"

definition drom_region :: "config \<Rightarrow> region" where
  "drom_region c = \<lparr>rbase = DROM_SEG_ORG, rsize = DROM_SEG_LEN c\<rparr>"



subsection \<open>The preconditions the specification puts on a configuration\<close>



subsection \<open>Concrete configurations\<close>

text \<open>
  The ESP32's banks (SRAM0: 192 kB at \<open>0x40070000\<close> on the instruction bus, SRAM1:
  128 kB at \<open>0x3ffe0000\<close> and SRAM2: 200 kB at \<open>0x3ffae000\<close> on the data bus), a 1 MB
  code partition, no bootloader, one CPU, a 16 kB heap in SRAM1 and no Bluetooth.
\<close>

definition esp32 :: config where
  "esp32 = \<lparr>
     dt_sram0_addr = 0x40070000, dt_sram0_size = 0x30000,
     dt_sram1_addr = 0x3ffe0000, dt_sram1_size = 0x20000,
     dt_sram2_addr = 0x3ffae000, dt_sram2_size = 0x32000,
     dt_code_partition_addr = 0x20000, dt_code_partition_size = 0x100000,
     CONFIG_SOC_ENABLE_APPCPU = False, CONFIG_SOC_ESP32_APPCPU = False,
     CONFIG_MCUBOOT = False, CONFIG_BOOTLOADER_MCUBOOT = False,
     CONFIG_ESP32_MCUBOOT_IRAM = 0,
     CONFIG_ESP32_SRAM1_HEAP_SIZE = 0x4000,
     CONFIG_ESP32_BT_RESERVE_DRAM = 0,
     CONFIG_ESP_APPCPU_IRAM_SIZE = 0, CONFIG_ESP_APPCPU_DRAM_SIZE = 0,
     CONFIG_FLASH_SIZE = None,
     CONFIG_MMU_PAGE_SIZE = 0x10000 \<rparr>"

text \<open>The same, booted by MCUboot with a 16 kB critical segment.\<close>

definition esp32_mcuboot :: config where
  "esp32_mcuboot =
     esp32\<lparr>CONFIG_BOOTLOADER_MCUBOOT := True, CONFIG_ESP32_MCUBOOT_IRAM := 0x4000\<rparr>"

text \<open>The same with the App CPU enabled, taking 64 kB of IRAM and 64 kB of DRAM.\<close>

definition esp32_mcuboot_amp :: config where
  "esp32_mcuboot_amp =
     esp32_mcuboot\<lparr>CONFIG_SOC_ENABLE_APPCPU := True,
       CONFIG_ESP_APPCPU_IRAM_SIZE := 0x10000, CONFIG_ESP_APPCPU_DRAM_SIZE := 0x10000\<rparr>"

text \<open>A critical bootloader segment as large as the whole of SRAM0.\<close>

definition esp32_loader_too_big :: config where
  "esp32_loader_too_big =
     esp32\<lparr>CONFIG_BOOTLOADER_MCUBOOT := True, CONFIG_ESP32_MCUBOOT_IRAM := 0x30000\<rparr>"

text \<open>A heap as large as the whole of SRAM1.\<close>

definition esp32_heap_too_big :: config where
  "esp32_heap_too_big = esp32\<lparr>CONFIG_ESP32_SRAM1_HEAP_SIZE := 0x20000\<rparr>"

text \<open>An 8 MB flash given by Kconfig.\<close>

definition esp32_flash_8M :: config where
  "esp32_flash_8M = esp32\<lparr>CONFIG_FLASH_SIZE := Some 0x800000\<rparr>"

section \<open>Properties\<close>

lemmas bank_defs =
  SRAM0_START_def SRAM0_SIZE_def SRAM1_START_def SRAM1_SIZE_def SRAM2_START_def
  SRAM2_SIZE_def

lemmas cache_defs =
  appcpu_defined_def CACHE_START_def CACHE_SIZE_SINGLE_CPU_def CACHE_SIZE_DUAL_CPU_def
  CACHE_SIZE_def

lemmas bootloader_defs =
  mcuboot_defined_def BOOTLOADER_IRAM_LOADER_START_def BOOTLOADER_IRAM_LOADER_SIZE_def
  BOOTLOADER_IRAM_RESERVED_def BOOTLOADER_IRAM_START_def BOOTLOADER_IRAM_SIZE_def
  BOOTLOADER_DRAM_START_def BOOTLOADER_DRAM_SIZE_def

lemmas application_defs =
  SRAM1_RESERVED_def SRAM1_DRAM_SIZE_def SRAM1_IRAM_SIZE_def IRAM_RESERVED_def
  IRAM_START_def IRAM_SIZE_def DRAM_RESERVED_def DRAM_START_def DRAM_SIZE_def
  HEAP_START_def HEAP_SIZE_def

lemmas cpu_defs =
  APPCPU_IRAM_SIZE_def APPCPU_DRAM_SIZE_def APPCPU_IRAM_START_def APPCPU_DRAM_START_def
  PROCPU_IRAM_START_def PROCPU_IRAM_SIZE_def PROCPU_DRAM_START_def PROCPU_DRAM_SIZE_def

lemmas flash_defs =
  FLASH_SIZE_def FLASH_CODE_START_def FLASH_CODE_SIZE_def CACHE_ALIGN_def
  IROM_SEG_ORG_def IROM_SEG_LEN_def DROM_SEG_ORG_def DROM_SEG_LEN_def

lemmas translator_defs =
  SRAM1_IRAM_START_def SRAM1_DRAM_START_def SRAM1_IRAM_DRAM_CALC_def
  SRAM1_DRAM_IRAM_CALC_def

lemmas region_defs =
  region_end_def cache_region_def loader_critical_region_def loader_reclaimable_region_def
  iram_region_def dram_region_def procpu_iram_region_def appcpu_iram_region_def
  procpu_dram_region_def appcpu_dram_region_def heap_region_def bootloader_dram_region_def
  irom_region_def drom_region_def

lemmas memory_h_defs =
  bank_defs cache_defs bootloader_defs application_defs cpu_defs flash_defs translator_defs

lemmas example_defs =
  esp32_def esp32_mcuboot_def esp32_mcuboot_amp_def esp32_loader_too_big_def
  esp32_heap_too_big_def esp32_flash_8M_def

subsection \<open>Regions as sets of addresses\<close>

lemma region_addrs_empty_iff: "region_addrs r = {} \<longleftrightarrow> rsize r \<le> 0"
  by (auto simp: region_addrs_def region_end_def)

lemma region_disjoint_iff:
  "region_disjoint a b \<longleftrightarrow> region_addrs a \<inter> region_addrs b = {}"
proof
  assume "region_disjoint a b"
  then show "region_addrs a \<inter> region_addrs b = {}"
    by (auto simp: region_disjoint_def region_addrs_def region_end_def)
next
  assume disj: "region_addrs a \<inter> region_addrs b = {}"
  show "region_disjoint a b"
  proof (rule ccontr)
    assume "\<not> region_disjoint a b"
    then have "max (rbase a) (rbase b) \<in> region_addrs a \<inter> region_addrs b"
      by (auto simp: region_disjoint_def region_addrs_def region_end_def)
    with disj show False by blast
  qed
qed

lemma region_disjoint_sym: "region_disjoint a b \<longleftrightarrow> region_disjoint b a"
  by (auto simp: region_disjoint_def)


lemma region_inside:
  assumes "rbase b \<le> rbase a" and "region_end a \<le> region_end b"
  shows "region_addrs a \<subseteq> region_addrs b"
  using assms by (auto simp: region_addrs_def)


lemma pool_bounds:
  "rbase (cache_region c) = SRAM0_START c"
  "region_end (cache_region c) = SRAM0_START c + CACHE_SIZE c"
  "rbase (iram_region c) = IRAM_START c"
  "region_end (iram_region c) = SRAM1_IRAM_START c + SRAM1_IRAM_SIZE c"
  "rbase (dram_region c) = SRAM2_START c + DRAM_RESERVED c"
  "region_end (dram_region c) = SRAM2_START c + SRAM2_SIZE c"
  "rbase (heap_region c) = SRAM1_START c + SRAM1_RESERVED"
  "region_end (heap_region c) = SRAM1_START c + SRAM1_RESERVED + CONFIG_ESP32_SRAM1_HEAP_SIZE c"
  "rbase (irom_region c) = IROM_SEG_ORG"
  "rbase (drom_region c) = DROM_SEG_ORG"
  "region_end (drom_region c) = DROM_SEG_ORG + DROM_SEG_LEN c"
  by (simp_all add: region_defs CACHE_START_def IRAM_START_def IRAM_SIZE_def
      SRAM1_IRAM_START_def DRAM_START_def DRAM_SIZE_def HEAP_START_def HEAP_SIZE_def
      SRAM1_DRAM_SIZE_def)



subsection \<open>The bus address translator of SRAM1\<close>

text \<open>
  Each translator mirrors an address inside the bank: the sum of an address and its
  image is the same for every address. Both round trips are the identity on every
  integer, so in particular on the addresses of the bank.
\<close>

lemma translator_mirror:
  "SRAM1_IRAM_DRAM_CALC c x + x = SRAM1_SIZE c + SRAM1_IRAM_START c + SRAM1_DRAM_START c"
  "SRAM1_DRAM_IRAM_CALC c y + y = SRAM1_SIZE c + SRAM1_IRAM_START c + SRAM1_DRAM_START c"
  by (simp_all add: SRAM1_IRAM_DRAM_CALC_def SRAM1_DRAM_IRAM_CALC_def)

lemma translator_round_trip:
  "SRAM1_DRAM_IRAM_CALC c (SRAM1_IRAM_DRAM_CALC c x) = x"
  "SRAM1_IRAM_DRAM_CALC c (SRAM1_DRAM_IRAM_CALC c y) = y"
  by (simp_all add: SRAM1_IRAM_DRAM_CALC_def SRAM1_DRAM_IRAM_CALC_def)

text \<open>
  C1. With \<open>I0 = SRAM0_START + SRAM0_SIZE\<close> (\<open>SRAM1_IRAM_START\<close>), \<open>D0 = SRAM1_START\<close>
  (\<open>SRAM1_DRAM_START\<close>) and \<open>S = SRAM1_SIZE\<close>, the two translators have the stated
  formulas and are inverses of one another: converting an instruction-bus address \<open>x\<close>
  of \<open>[I0, I0 + S)\<close> to the data bus and back gives \<open>x\<close>, and converting a data-bus
  address \<open>y\<close> of \<open>[D0, D0 + S)\<close> to the instruction bus and back gives \<open>y\<close>.
\<close>

theorem C1_translators_inverse:
  "SRAM1_IRAM_START c = SRAM0_START c + SRAM0_SIZE c \<and>
   SRAM1_DRAM_START c = SRAM1_START c \<and>
   SRAM1_IRAM_DRAM_CALC c x = SRAM1_SIZE c - (x - SRAM1_IRAM_START c) + SRAM1_DRAM_START c \<and>
   SRAM1_DRAM_IRAM_CALC c y = SRAM1_SIZE c - (y - SRAM1_DRAM_START c) + SRAM1_IRAM_START c \<and>
   (SRAM1_IRAM_START c \<le> x \<and> x < SRAM1_IRAM_START c + SRAM1_SIZE c \<longrightarrow>
      SRAM1_DRAM_IRAM_CALC c (SRAM1_IRAM_DRAM_CALC c x) = x) \<and>
   (SRAM1_DRAM_START c \<le> y \<and> y < SRAM1_DRAM_START c + SRAM1_SIZE c \<longrightarrow>
      SRAM1_IRAM_DRAM_CALC c (SRAM1_DRAM_IRAM_CALC c y) = y)"
proof -
  have formulas:
    "SRAM1_IRAM_START c = SRAM0_START c + SRAM0_SIZE c"
    "SRAM1_DRAM_START c = SRAM1_START c"
    "SRAM1_IRAM_DRAM_CALC c x = SRAM1_SIZE c - (x - SRAM1_IRAM_START c) + SRAM1_DRAM_START c"
    "SRAM1_DRAM_IRAM_CALC c y = SRAM1_SIZE c - (y - SRAM1_DRAM_START c) + SRAM1_IRAM_START c"
    by (simp_all only: translator_defs)
  from formulas translator_round_trip [of c x] translator_round_trip [of c y]
  show ?thesis by blast
qed

text \<open>
  On the ESP32, SRAM1 is \<open>[0x400a0000, 0x400c0000)\<close> on the instruction bus and
  \<open>[0x3ffe0000, 0x40000000)\<close> on the data bus.
\<close>

theorem C1_translators_inverse_witness:
  "SRAM1_IRAM_START esp32 \<le> 0x400a1234 \<and>
   0x400a1234 < SRAM1_IRAM_START esp32 + SRAM1_SIZE esp32 \<and>
   SRAM1_DRAM_IRAM_CALC esp32 (SRAM1_IRAM_DRAM_CALC esp32 0x400a1234) = 0x400a1234 \<and>
   SRAM1_DRAM_START esp32 \<le> 0x3ffe0010 \<and>
   0x3ffe0010 < SRAM1_DRAM_START esp32 + SRAM1_SIZE esp32 \<and>
   SRAM1_IRAM_DRAM_CALC esp32 (SRAM1_DRAM_IRAM_CALC esp32 0x3ffe0010) = 0x3ffe0010"
proof -
  have x: "SRAM1_IRAM_START esp32 \<le> 0x400a1234 \<and>
      0x400a1234 < SRAM1_IRAM_START esp32 + SRAM1_SIZE esp32"
    by (simp add: SRAM1_IRAM_START_def bank_defs esp32_def)
  have y: "SRAM1_DRAM_START esp32 \<le> 0x3ffe0010 \<and>
      0x3ffe0010 < SRAM1_DRAM_START esp32 + SRAM1_SIZE esp32"
    by (simp add: SRAM1_DRAM_START_def bank_defs esp32_def)
  from x y C1_translators_inverse [of esp32 "0x400a1234" "0x3ffe0010"]
  show ?thesis by blast
qed

text \<open>
  The application's IRAM ends \<open>SRAM1_IRAM_SIZE\<close> bytes into the instruction-bus view of
  SRAM1, and the translator sends that end to the end of the heap on the data bus: the
  reserved head, the heap and the IRAM part tile SRAM1.
\<close>

lemma iram_end_is_heap_end:
  "IRAM_START c + IRAM_SIZE c = SRAM1_IRAM_START c + SRAM1_IRAM_SIZE c"
  "SRAM1_IRAM_DRAM_CALC c (IRAM_START c + IRAM_SIZE c) = HEAP_START c + HEAP_SIZE c"
  by (simp_all add: IRAM_START_def IRAM_SIZE_def SRAM1_IRAM_START_def SRAM1_IRAM_SIZE_def
      SRAM1_IRAM_DRAM_CALC_def SRAM1_DRAM_START_def HEAP_START_def HEAP_SIZE_def
      SRAM1_DRAM_SIZE_def)

text \<open>
  C5. The translator to the data bus sends the first instruction-bus address of SRAM1,
  \<open>I0\<close>, to \<open>D0 + S\<close>, one past the last data-bus address of the bank, and sends
  \<open>I0 + S\<close>, one past the last instruction-bus address, to \<open>D0\<close>, the first data-bus
  address.
\<close>

theorem C5_translator_boundaries:
  "SRAM1_IRAM_START c = SRAM0_START c + SRAM0_SIZE c \<and>
   SRAM1_DRAM_START c = SRAM1_START c \<and>
   SRAM1_IRAM_DRAM_CALC c (SRAM1_IRAM_START c) = SRAM1_DRAM_START c + SRAM1_SIZE c \<and>
   SRAM1_IRAM_DRAM_CALC c (SRAM1_IRAM_START c + SRAM1_SIZE c) = SRAM1_DRAM_START c"
  by (simp add: SRAM1_IRAM_DRAM_CALC_def SRAM1_IRAM_START_def SRAM1_DRAM_START_def)

theorem C5_translator_boundaries_witness:
  "SRAM1_IRAM_START esp32 = 0x400a0000 \<and>
   SRAM1_DRAM_START esp32 = 0x3ffe0000 \<and>
   SRAM1_IRAM_DRAM_CALC esp32 0x400a0000 = 0x40000000 \<and>
   SRAM1_IRAM_DRAM_CALC esp32 0x400c0000 = 0x3ffe0000"
proof -
  have at: "SRAM1_IRAM_START esp32 = 0x400a0000" "SRAM1_DRAM_START esp32 = 0x3ffe0000"
    "SRAM1_SIZE esp32 = 0x20000"
    by (simp_all add: SRAM1_IRAM_START_def SRAM1_DRAM_START_def bank_defs esp32_def)
  from C5_translator_boundaries [of esp32] show ?thesis
    unfolding at by simp
qed

subsection \<open>The cache and the reservation at the head of SRAM0\<close>

text \<open>
  C4. The cache region starts at the base of SRAM0. Its size depends on the App CPU
  toggle alone: \<open>0x8000\<close> (32 KiB, the single-CPU size) when the App CPU is enabled and
  \<open>0x10000\<close> (64 KiB, twice the single-CPU size) when it is not; the dual-CPU size is
  exactly twice the single-CPU size.
\<close>

theorem C4_cache_region:
  "CACHE_START c = SRAM0_START c \<and>
   CACHE_SIZE_SINGLE_CPU = 0x8000 \<and>
   CACHE_SIZE_DUAL_CPU = 2 * CACHE_SIZE_SINGLE_CPU \<and>
   (\<not> appcpu_defined c \<longrightarrow>
      CACHE_SIZE c = 2 * CACHE_SIZE_SINGLE_CPU \<and> CACHE_SIZE c = 0x10000) \<and>
   (appcpu_defined c \<longrightarrow> CACHE_SIZE c = CACHE_SIZE_SINGLE_CPU \<and> CACHE_SIZE c = 0x8000) \<and>
   (appcpu_defined c = appcpu_defined c' \<longrightarrow> CACHE_SIZE c = CACHE_SIZE c')"
  by (simp add: CACHE_START_def CACHE_SIZE_def CACHE_SIZE_SINGLE_CPU_def
      CACHE_SIZE_DUAL_CPU_def)

theorem C4_cache_region_witness:
  "\<not> appcpu_defined esp32_mcuboot \<and> CACHE_SIZE esp32_mcuboot = 0x10000 \<and>
   appcpu_defined esp32_mcuboot_amp \<and> CACHE_SIZE esp32_mcuboot_amp = 0x8000 \<and>
   appcpu_defined esp32 = appcpu_defined esp32_mcuboot \<and>
   CACHE_SIZE esp32 = CACHE_SIZE esp32_mcuboot \<and>
   CACHE_START esp32 = 0x40070000"
proof -
  have toggles: "\<not> appcpu_defined esp32" "\<not> appcpu_defined esp32_mcuboot"
    "appcpu_defined esp32_mcuboot_amp"
    by (simp_all add: appcpu_defined_def example_defs)
  have start: "SRAM0_START esp32 = 0x40070000"
    by (simp add: SRAM0_START_def esp32_def)
  from toggles start C4_cache_region [of esp32_mcuboot esp32]
    C4_cache_region [of esp32_mcuboot_amp esp32_mcuboot_amp]
    C4_cache_region [of esp32 esp32_mcuboot]
  show ?thesis by simp
qed

text \<open>
  C3. The reservation at the head of SRAM0 is the larger of the cache size and the
  bootloader's reservation, where the bootloader's reservation is the single-CPU cache
  size plus the size of the critical segment when a bootloader is configured and 0 when
  none is; the application's IRAM starts at the base of SRAM0 plus that maximum. With a
  bootloader, a critical segment of 16 KiB and the App CPU disabled, the bootloader's
  reservation is 48 KiB, the cache is 64 KiB, and the reservation is 64 KiB.
\<close>

theorem C3_head_reservation:
  "IRAM_RESERVED c = max (CACHE_SIZE c) (BOOTLOADER_IRAM_RESERVED c) \<and>
   BOOTLOADER_IRAM_RESERVED c =
     (if mcuboot_defined c then CACHE_SIZE_SINGLE_CPU + CONFIG_ESP32_MCUBOOT_IRAM c else 0) \<and>
   IRAM_START c = SRAM0_START c + max (CACHE_SIZE c) (BOOTLOADER_IRAM_RESERVED c) \<and>
   (mcuboot_defined c \<and> CONFIG_ESP32_MCUBOOT_IRAM c = 0x4000 \<and> \<not> appcpu_defined c \<longrightarrow>
      BOOTLOADER_IRAM_RESERVED c = 0xC000 \<and> CACHE_SIZE c = 0x10000 \<and>
      IRAM_RESERVED c = 0x10000)"
proof -
  have reserved: "IRAM_RESERVED c = max (CACHE_SIZE c) (BOOTLOADER_IRAM_RESERVED c)"
    by (simp add: IRAM_RESERVED_def max_def)
  have loader: "BOOTLOADER_IRAM_RESERVED c =
      (if mcuboot_defined c then CACHE_SIZE_SINGLE_CPU + CONFIG_ESP32_MCUBOOT_IRAM c else 0)"
    by (simp add: BOOTLOADER_IRAM_RESERVED_def BOOTLOADER_IRAM_LOADER_SIZE_def)
  have start: "IRAM_START c = SRAM0_START c + max (CACHE_SIZE c) (BOOTLOADER_IRAM_RESERVED c)"
    by (simp add: IRAM_START_def reserved)
  have example: "BOOTLOADER_IRAM_RESERVED c = 0xC000 \<and> CACHE_SIZE c = 0x10000 \<and>
      IRAM_RESERVED c = 0x10000"
    if "mcuboot_defined c" "CONFIG_ESP32_MCUBOOT_IRAM c = 0x4000" "\<not> appcpu_defined c"
    using that by (simp add: reserved loader CACHE_SIZE_def CACHE_SIZE_SINGLE_CPU_def
        CACHE_SIZE_DUAL_CPU_def)
  from reserved loader start example show ?thesis by blast
qed

theorem C3_head_reservation_witness:
  "mcuboot_defined esp32_mcuboot \<and> CONFIG_ESP32_MCUBOOT_IRAM esp32_mcuboot = 0x4000 \<and>
   \<not> appcpu_defined esp32_mcuboot \<and>
   BOOTLOADER_IRAM_RESERVED esp32_mcuboot = 0xC000 \<and> CACHE_SIZE esp32_mcuboot = 0x10000 \<and>
   IRAM_RESERVED esp32_mcuboot = 0x10000 \<and> IRAM_START esp32_mcuboot = 0x40080000"
proof -
  have inputs: "mcuboot_defined esp32_mcuboot"
    "CONFIG_ESP32_MCUBOOT_IRAM esp32_mcuboot = 0x4000" "\<not> appcpu_defined esp32_mcuboot"
    "SRAM0_START esp32_mcuboot = 0x40070000"
    by (simp_all add: mcuboot_defined_def appcpu_defined_def SRAM0_START_def example_defs)
  from inputs C3_head_reservation [of esp32_mcuboot] show ?thesis by simp
qed

subsection \<open>Which instruction-bus regions of SRAM0 are disjoint\<close>

lemma loader_regions_Some:
  assumes "loader_critical_region c = Some lc"
  shows "mcuboot_defined c"
    and "lc = \<lparr>rbase = SRAM0_START c + CACHE_SIZE_SINGLE_CPU,
           rsize = CONFIG_ESP32_MCUBOOT_IRAM c\<rparr>"
    and "loader_reclaimable_region c =
           Some \<lparr>rbase = SRAM0_START c + CACHE_SIZE_SINGLE_CPU + CONFIG_ESP32_MCUBOOT_IRAM c,
             rsize = SRAM0_SIZE c - (CACHE_SIZE_SINGLE_CPU + CONFIG_ESP32_MCUBOOT_IRAM c)\<rparr>"
  using assms
  by (auto simp: loader_critical_region_def loader_reclaimable_region_def
      BOOTLOADER_IRAM_LOADER_START_def BOOTLOADER_IRAM_LOADER_SIZE_def
      BOOTLOADER_IRAM_START_def BOOTLOADER_IRAM_SIZE_def BOOTLOADER_IRAM_RESERVED_def
      split: if_splits)



lemma loader_bounds:
  assumes "loader_critical_region c = Some lc" and "loader_reclaimable_region c = Some lr"
  shows "rbase lc = SRAM0_START c + CACHE_SIZE_SINGLE_CPU"
    and "region_end lc = SRAM0_START c + BOOTLOADER_IRAM_RESERVED c"
    and "rbase lr = SRAM0_START c + BOOTLOADER_IRAM_RESERVED c"
    and "region_end lr = SRAM1_IRAM_START c"
  using loader_regions_Some [OF assms(1)] assms(2)
  by (simp_all add: region_end_def BOOTLOADER_IRAM_RESERVED_def BOOTLOADER_IRAM_LOADER_SIZE_def
      SRAM1_IRAM_START_def)


text \<open>
  The pairs that share memory where the bootloader is concerned: a critical segment of
  at most 32 KiB lies inside a cache region of the dual-CPU size, and the bootloader's
  DRAM starts where the heap starts.
\<close>

lemma loader_critical_inside_cache:
  assumes "loader_critical_region c = Some lc" and "loader_reclaimable_region c = Some lr"
    and "CACHE_SIZE c = CACHE_SIZE_DUAL_CPU"
    and "BOOTLOADER_IRAM_RESERVED c \<le> CACHE_SIZE_DUAL_CPU"
  shows "region_addrs lc \<subseteq> region_addrs (cache_region c)"
  using assms(3,4) loader_bounds(1,2) [OF assms(1,2)]
  by (intro region_inside)
    (simp_all add: pool_bounds CACHE_SIZE_SINGLE_CPU_def CACHE_SIZE_DUAL_CPU_def)

lemma loader_dram_shares_heap:
  "bootloader_dram_region esp32_mcuboot = Some \<lparr>rbase = 0x3ffe8000, rsize = 0x18000\<rparr> \<and>
   heap_region esp32_mcuboot = \<lparr>rbase = 0x3ffe8000, rsize = 0x4000\<rparr> \<and>
   0x3ffe8000 \<in> region_addrs \<lparr>rbase = 0x3ffe8000, rsize = 0x18000\<rparr>
     \<inter> region_addrs \<lparr>rbase = 0x3ffe8000, rsize = 0x4000\<rparr>"
  by (simp add: bootloader_dram_region_def heap_region_def region_addrs_def region_end_def
      memory_h_defs example_defs)




subsection \<open>Sizes that the header does not validate\<close>

text \<open>
  C6, as the specification states it, fails: the header has no check of the size of the
  critical bootloader segment. With MCUboot and a critical segment of \<open>0x30000\<close> bytes
  in an SRAM0 of \<open>0x30000\<close> bytes, the size is not below \<open>SRAM0_SIZE - 0x8000\<close>, and
  every bootloader macro is defined all the same: \<open>BOOTLOADER_IRAM_SIZE\<close> has the
  negative value \<open>-0x8000\<close>, and the application's IRAM macros have values too.
\<close>

theorem C6_loader_too_big_counterexample:
  "mcuboot_defined esp32_loader_too_big \<and>
   CONFIG_ESP32_MCUBOOT_IRAM esp32_loader_too_big
     \<ge> SRAM0_SIZE esp32_loader_too_big - CACHE_SIZE_SINGLE_CPU \<and>
   BOOTLOADER_IRAM_LOADER_START esp32_loader_too_big = Some 0x40078000 \<and>
   BOOTLOADER_IRAM_LOADER_SIZE esp32_loader_too_big = Some 0x30000 \<and>
   BOOTLOADER_IRAM_START esp32_loader_too_big = Some 0x400a8000 \<and>
   BOOTLOADER_IRAM_SIZE esp32_loader_too_big = Some (- 0x8000) \<and>
   IRAM_START esp32_loader_too_big = 0x400a8000 \<and>
   IRAM_SIZE esp32_loader_too_big = 0xC000"
  by (simp add: memory_h_defs example_defs)

text \<open>
  C6, amended. The header validates nothing and reports no error. For every
  configuration with a second stage bootloader, all bootloader macros are defined:
  the critical segment starts at \<open>SRAM0_START + 0x8000\<close> with the configured size, the
  reserved amount is \<open>0x8000\<close> plus that size, the reclaimable segment follows the
  critical one, the bootloader's DRAM is \<open>0x18000\<close> bytes at \<open>0x3ffe8000\<close>, and
  \<open>BOOTLOADER_IRAM_SIZE\<close> is \<open>SRAM0_SIZE - (0x8000 + CONFIG_ESP32_MCUBOOT_IRAM)\<close>; this
  value is zero or negative exactly when the critical segment's size is at least
  \<open>SRAM0_SIZE - 0x8000\<close>.
\<close>

theorem C6_loader_size_unchecked:
  assumes "mcuboot_defined c"
  shows "BOOTLOADER_IRAM_LOADER_START c = Some (SRAM0_START c + CACHE_SIZE_SINGLE_CPU) \<and>
    BOOTLOADER_IRAM_LOADER_SIZE c = Some (CONFIG_ESP32_MCUBOOT_IRAM c) \<and>
    BOOTLOADER_IRAM_RESERVED c = CACHE_SIZE_SINGLE_CPU + CONFIG_ESP32_MCUBOOT_IRAM c \<and>
    BOOTLOADER_IRAM_START c =
      Some (SRAM0_START c + CACHE_SIZE_SINGLE_CPU + CONFIG_ESP32_MCUBOOT_IRAM c) \<and>
    BOOTLOADER_DRAM_START c = Some 0x3ffe8000 \<and>
    BOOTLOADER_DRAM_SIZE c = Some 0x18000 \<and>
    CACHE_SIZE_SINGLE_CPU = 0x8000 \<and>
    (\<exists>n. BOOTLOADER_IRAM_SIZE c = Some n \<and>
       n = SRAM0_SIZE c - (CACHE_SIZE_SINGLE_CPU + CONFIG_ESP32_MCUBOOT_IRAM c) \<and>
       (n \<le> 0 \<longleftrightarrow>
          CONFIG_ESP32_MCUBOOT_IRAM c \<ge> SRAM0_SIZE c - CACHE_SIZE_SINGLE_CPU))"
proof -
  have loader: "BOOTLOADER_IRAM_LOADER_START c = Some (SRAM0_START c + CACHE_SIZE_SINGLE_CPU)"
    "BOOTLOADER_IRAM_LOADER_SIZE c = Some (CONFIG_ESP32_MCUBOOT_IRAM c)"
    using assms
    by (simp_all add: BOOTLOADER_IRAM_LOADER_START_def BOOTLOADER_IRAM_LOADER_SIZE_def)
  have reserved:
    "BOOTLOADER_IRAM_RESERVED c = CACHE_SIZE_SINGLE_CPU + CONFIG_ESP32_MCUBOOT_IRAM c"
    by (simp add: BOOTLOADER_IRAM_RESERVED_def loader)
  have start: "BOOTLOADER_IRAM_START c =
      Some (SRAM0_START c + CACHE_SIZE_SINGLE_CPU + CONFIG_ESP32_MCUBOOT_IRAM c)"
    by (simp add: BOOTLOADER_IRAM_START_def loader)
  have dram: "BOOTLOADER_DRAM_START c = Some 0x3ffe8000" "BOOTLOADER_DRAM_SIZE c = Some 0x18000"
    using assms by (simp_all add: BOOTLOADER_DRAM_START_def BOOTLOADER_DRAM_SIZE_def)
  have size: "BOOTLOADER_IRAM_SIZE c =
      Some (SRAM0_SIZE c - (CACHE_SIZE_SINGLE_CPU + CONFIG_ESP32_MCUBOOT_IRAM c))"
    using assms by (simp add: BOOTLOADER_IRAM_SIZE_def reserved)
  have sign: "SRAM0_SIZE c - (CACHE_SIZE_SINGLE_CPU + CONFIG_ESP32_MCUBOOT_IRAM c) \<le> 0 \<longleftrightarrow>
      CONFIG_ESP32_MCUBOOT_IRAM c \<ge> SRAM0_SIZE c - CACHE_SIZE_SINGLE_CPU"
    by arith
  from loader reserved start dram size sign show ?thesis
    by (simp add: CACHE_SIZE_SINGLE_CPU_def)
qed

text \<open>
  The amended statement at its boundary: a critical segment of exactly
  \<open>SRAM0_SIZE - 0x8000 = 0x28000\<close> bytes leaves a reclaimable segment of size 0.
\<close>

theorem C6_loader_size_unchecked_witness:
  "mcuboot_defined (esp32_mcuboot\<lparr>CONFIG_ESP32_MCUBOOT_IRAM := 0x28000\<rparr>) \<and>
   BOOTLOADER_IRAM_LOADER_START (esp32_mcuboot\<lparr>CONFIG_ESP32_MCUBOOT_IRAM := 0x28000\<rparr>)
     = Some 0x40078000 \<and>
   BOOTLOADER_IRAM_LOADER_SIZE (esp32_mcuboot\<lparr>CONFIG_ESP32_MCUBOOT_IRAM := 0x28000\<rparr>)
     = Some 0x28000 \<and>
   BOOTLOADER_IRAM_RESERVED (esp32_mcuboot\<lparr>CONFIG_ESP32_MCUBOOT_IRAM := 0x28000\<rparr>)
     = 0x30000 \<and>
   BOOTLOADER_IRAM_START (esp32_mcuboot\<lparr>CONFIG_ESP32_MCUBOOT_IRAM := 0x28000\<rparr>)
     = Some 0x400a0000 \<and>
   BOOTLOADER_IRAM_SIZE (esp32_mcuboot\<lparr>CONFIG_ESP32_MCUBOOT_IRAM := 0x28000\<rparr>) = Some 0 \<and>
   BOOTLOADER_DRAM_START (esp32_mcuboot\<lparr>CONFIG_ESP32_MCUBOOT_IRAM := 0x28000\<rparr>)
     = Some 0x3ffe8000 \<and>
   BOOTLOADER_DRAM_SIZE (esp32_mcuboot\<lparr>CONFIG_ESP32_MCUBOOT_IRAM := 0x28000\<rparr>)
     = Some 0x18000"
proof -
  define cfg where "cfg = esp32_mcuboot\<lparr>CONFIG_ESP32_MCUBOOT_IRAM := 0x28000\<rparr>"
  have inputs: "mcuboot_defined cfg" "SRAM0_START cfg = 0x40070000"
    "SRAM0_SIZE cfg = 0x30000" "CONFIG_ESP32_MCUBOOT_IRAM cfg = 0x28000"
    by (simp_all add: cfg_def mcuboot_defined_def bank_defs example_defs)
  from C6_loader_size_unchecked [OF inputs(1)] inputs
  have "mcuboot_defined cfg \<and> BOOTLOADER_IRAM_LOADER_START cfg = Some 0x40078000 \<and>
      BOOTLOADER_IRAM_LOADER_SIZE cfg = Some 0x28000 \<and>
      BOOTLOADER_IRAM_RESERVED cfg = 0x30000 \<and>
      BOOTLOADER_IRAM_START cfg = Some 0x400a0000 \<and> BOOTLOADER_IRAM_SIZE cfg = Some 0 \<and>
      BOOTLOADER_DRAM_START cfg = Some 0x3ffe8000 \<and> BOOTLOADER_DRAM_SIZE cfg = Some 0x18000"
    by auto
  then show ?thesis unfolding cfg_def .
qed

text \<open>
  C7, as the specification states it, fails: the header has no check of the heap size
  either. With a heap of \<open>0x20000\<close> bytes in an SRAM1 of \<open>0x20000\<close> bytes the heap and
  the reserved head exceed the bank, and \<open>SRAM1_IRAM_SIZE\<close> has the negative value
  \<open>-0x8000\<close>, which \<open>IRAM_SIZE\<close> then includes.
\<close>

theorem C7_heap_too_big_counterexample:
  "CONFIG_ESP32_SRAM1_HEAP_SIZE esp32_heap_too_big + SRAM1_RESERVED
     > SRAM1_SIZE esp32_heap_too_big \<and>
   HEAP_START esp32_heap_too_big = 0x3ffe8000 \<and>
   HEAP_SIZE esp32_heap_too_big = 0x20000 \<and>
   SRAM1_IRAM_SIZE esp32_heap_too_big = - 0x8000 \<and>
   IRAM_START esp32_heap_too_big = 0x40080000 \<and>
   IRAM_SIZE esp32_heap_too_big = 0x18000"
  by (simp add: memory_h_defs example_defs)

text \<open>
  C7, amended. The header validates nothing and reports no error. For every
  configuration the heap region starts at \<open>SRAM1_START + 0x8000\<close> with the configured
  size, and \<open>SRAM1_IRAM_SIZE\<close> is \<open>SRAM1_SIZE - 0x8000 - CONFIG_ESP32_SRAM1_HEAP_SIZE\<close>;
  this value is negative exactly when the heap size plus the 32 KiB reserved head
  exceeds \<open>SRAM1_SIZE\<close>.
\<close>

theorem C7_heap_size_unchecked:
  "SRAM1_RESERVED = 0x8000 \<and>
   HEAP_START c = SRAM1_START c + SRAM1_RESERVED \<and>
   HEAP_SIZE c = CONFIG_ESP32_SRAM1_HEAP_SIZE c \<and>
   SRAM1_IRAM_SIZE c = SRAM1_SIZE c - SRAM1_RESERVED - CONFIG_ESP32_SRAM1_HEAP_SIZE c \<and>
   (SRAM1_IRAM_SIZE c < 0 \<longleftrightarrow>
      CONFIG_ESP32_SRAM1_HEAP_SIZE c + SRAM1_RESERVED > SRAM1_SIZE c)"
  by (auto simp: SRAM1_RESERVED_def HEAP_START_def HEAP_SIZE_def SRAM1_DRAM_SIZE_def
      SRAM1_IRAM_SIZE_def)

text \<open>
  The amended statement at a heap that fits (the 16 KiB of \<open>esp32\<close>, leaving 80 KiB of
  SRAM1 as IRAM) and at the largest heap that fits (96 KiB, leaving none).
\<close>

theorem C7_heap_size_unchecked_witness:
  "SRAM1_IRAM_SIZE esp32 = 0x14000 \<and> \<not> SRAM1_IRAM_SIZE esp32 < 0 \<and>
   SRAM1_IRAM_SIZE (esp32\<lparr>CONFIG_ESP32_SRAM1_HEAP_SIZE := 0x18000\<rparr>) = 0 \<and>
   HEAP_START esp32 = 0x3ffe8000 \<and> HEAP_SIZE esp32 = 0x4000"
proof -
  define cfg where "cfg = esp32\<lparr>CONFIG_ESP32_SRAM1_HEAP_SIZE := 0x18000\<rparr>"
  have inputs: "SRAM1_START esp32 = 0x3ffe0000" "SRAM1_SIZE esp32 = 0x20000"
    "CONFIG_ESP32_SRAM1_HEAP_SIZE esp32 = 0x4000"
    "SRAM1_SIZE cfg = 0x20000" "CONFIG_ESP32_SRAM1_HEAP_SIZE cfg = 0x18000"
    by (simp_all add: cfg_def bank_defs example_defs)
  from C7_heap_size_unchecked [of esp32] C7_heap_size_unchecked [of cfg] inputs
  have "SRAM1_IRAM_SIZE esp32 = 0x14000 \<and> \<not> SRAM1_IRAM_SIZE esp32 < 0 \<and>
      SRAM1_IRAM_SIZE cfg = 0 \<and> HEAP_START esp32 = 0x3ffe8000 \<and> HEAP_SIZE esp32 = 0x4000"
    by simp
  then show ?thesis unfolding cfg_def .
qed

subsection \<open>The split between the Pro CPU and the App CPU\<close>

text \<open>
  The App CPU toggle itself moves the start of the application's IRAM, through
  \<open>CACHE_SIZE\<close>: without a bootloader, IRAM starts 32 KiB into SRAM0 when the App CPU
  is enabled and 64 KiB into SRAM0 when it is not.
\<close>

lemma iram_start_without_bootloader:
  assumes "\<not> mcuboot_defined c"
  shows "IRAM_START c = SRAM0_START c + (if appcpu_defined c then 0x8000 else 0x10000)"
  using assms
  by (simp add: IRAM_START_def IRAM_RESERVED_def BOOTLOADER_IRAM_RESERVED_def
      BOOTLOADER_IRAM_LOADER_SIZE_def CACHE_SIZE_def CACHE_SIZE_SINGLE_CPU_def
      CACHE_SIZE_DUAL_CPU_def)

text \<open>
  The configured App CPU sizes are read by \<open>APPCPU_IRAM_SIZE\<close> and \<open>APPCPU_DRAM_SIZE\<close>
  only; the pools do not depend on them.
\<close>

lemma pools_ignore_appcpu_sizes:
  "IRAM_START (c\<lparr>CONFIG_ESP_APPCPU_IRAM_SIZE := i, CONFIG_ESP_APPCPU_DRAM_SIZE := d\<rparr>)
     = IRAM_START c"
  "IRAM_SIZE (c\<lparr>CONFIG_ESP_APPCPU_IRAM_SIZE := i, CONFIG_ESP_APPCPU_DRAM_SIZE := d\<rparr>)
     = IRAM_SIZE c"
  "DRAM_START (c\<lparr>CONFIG_ESP_APPCPU_IRAM_SIZE := i, CONFIG_ESP_APPCPU_DRAM_SIZE := d\<rparr>)
     = DRAM_START c"
  "DRAM_SIZE (c\<lparr>CONFIG_ESP_APPCPU_IRAM_SIZE := i, CONFIG_ESP_APPCPU_DRAM_SIZE := d\<rparr>)
     = DRAM_SIZE c"
  by (simp_all add: bank_defs cache_defs bootloader_defs application_defs)

text \<open>
  C8. With the rest of the configuration fixed, changing the configured IRAM and DRAM
  sizes of the App CPU to any values \<open>i\<close> and \<open>d\<close> leaves \<open>PROCPU_IRAM_START\<close> and
  \<open>PROCPU_DRAM_START\<close> as they were, and leaves the pools as they were; only the sizes
  of the Pro CPU's regions follow the change. The App CPU's regions end where the pools
  end: they are taken from the tail.
\<close>

theorem C8_procpu_bases_fixed:
  "PROCPU_IRAM_START (c\<lparr>CONFIG_ESP_APPCPU_IRAM_SIZE := i, CONFIG_ESP_APPCPU_DRAM_SIZE := d\<rparr>)
     = PROCPU_IRAM_START c \<and>
   PROCPU_DRAM_START (c\<lparr>CONFIG_ESP_APPCPU_IRAM_SIZE := i, CONFIG_ESP_APPCPU_DRAM_SIZE := d\<rparr>)
     = PROCPU_DRAM_START c \<and>
   PROCPU_IRAM_SIZE (c\<lparr>CONFIG_ESP_APPCPU_IRAM_SIZE := i, CONFIG_ESP_APPCPU_DRAM_SIZE := d\<rparr>)
     = IRAM_SIZE c - (if appcpu_defined c then i else 0) \<and>
   PROCPU_DRAM_SIZE (c\<lparr>CONFIG_ESP_APPCPU_IRAM_SIZE := i, CONFIG_ESP_APPCPU_DRAM_SIZE := d\<rparr>)
     = DRAM_SIZE c - (if appcpu_defined c then d else 0) \<and>
   APPCPU_IRAM_START c + APPCPU_IRAM_SIZE c = IRAM_START c + IRAM_SIZE c \<and>
   APPCPU_DRAM_START c + APPCPU_DRAM_SIZE c = DRAM_START c + DRAM_SIZE c \<and>
   PROCPU_IRAM_START c = IRAM_START c \<and> PROCPU_DRAM_START c = DRAM_START c"
proof -
  let ?c' = "c\<lparr>CONFIG_ESP_APPCPU_IRAM_SIZE := i, CONFIG_ESP_APPCPU_DRAM_SIZE := d\<rparr>"
  have sizes: "APPCPU_IRAM_SIZE ?c' = (if appcpu_defined c then i else 0)"
    "APPCPU_DRAM_SIZE ?c' = (if appcpu_defined c then d else 0)"
    by (simp_all add: APPCPU_IRAM_SIZE_def APPCPU_DRAM_SIZE_def appcpu_defined_def)
  have bases: "PROCPU_IRAM_START ?c' = PROCPU_IRAM_START c"
    "PROCPU_DRAM_START ?c' = PROCPU_DRAM_START c"
    by (simp_all only: PROCPU_IRAM_START_def PROCPU_DRAM_START_def pools_ignore_appcpu_sizes)
  have procpu: "PROCPU_IRAM_SIZE ?c' = IRAM_SIZE c - (if appcpu_defined c then i else 0)"
    "PROCPU_DRAM_SIZE ?c' = DRAM_SIZE c - (if appcpu_defined c then d else 0)"
    by (simp_all only: PROCPU_IRAM_SIZE_def PROCPU_DRAM_SIZE_def pools_ignore_appcpu_sizes sizes)
  have tail: "APPCPU_IRAM_START c + APPCPU_IRAM_SIZE c = IRAM_START c + IRAM_SIZE c"
    "APPCPU_DRAM_START c + APPCPU_DRAM_SIZE c = DRAM_START c + DRAM_SIZE c"
    by (simp_all add: APPCPU_IRAM_START_def APPCPU_DRAM_START_def)
  from bases procpu tail show ?thesis
    by (simp add: PROCPU_IRAM_START_def PROCPU_DRAM_START_def)
qed

text \<open>
  With MCUboot and the App CPU, halving the App CPU's 64 KiB shares keeps the Pro CPU's
  regions at \<open>0x4007c000\<close> and \<open>0x3ffb0000\<close> and grows them by 32 KiB each.
\<close>

theorem C8_procpu_bases_fixed_witness:
  "PROCPU_IRAM_START esp32_mcuboot_amp = 0x4007c000 \<and>
   PROCPU_IRAM_START (esp32_mcuboot_amp\<lparr>CONFIG_ESP_APPCPU_IRAM_SIZE := 0x8000,
      CONFIG_ESP_APPCPU_DRAM_SIZE := 0x8000\<rparr>) = 0x4007c000 \<and>
   PROCPU_DRAM_START esp32_mcuboot_amp = 0x3ffb0000 \<and>
   PROCPU_DRAM_START (esp32_mcuboot_amp\<lparr>CONFIG_ESP_APPCPU_IRAM_SIZE := 0x8000,
      CONFIG_ESP_APPCPU_DRAM_SIZE := 0x8000\<rparr>) = 0x3ffb0000 \<and>
   PROCPU_IRAM_SIZE esp32_mcuboot_amp = 0x28000 \<and>
   PROCPU_IRAM_SIZE (esp32_mcuboot_amp\<lparr>CONFIG_ESP_APPCPU_IRAM_SIZE := 0x8000,
      CONFIG_ESP_APPCPU_DRAM_SIZE := 0x8000\<rparr>) = 0x30000"
proof -
  have before: "PROCPU_IRAM_START esp32_mcuboot_amp = 0x4007c000"
    "PROCPU_DRAM_START esp32_mcuboot_amp = 0x3ffb0000"
    "PROCPU_IRAM_SIZE esp32_mcuboot_amp = 0x28000"
    "IRAM_SIZE esp32_mcuboot_amp = 0x38000" "appcpu_defined esp32_mcuboot_amp"
    by (simp_all add: memory_h_defs example_defs)
  from C8_procpu_bases_fixed [where c = esp32_mcuboot_amp and i = "0x8000" and d = "0x8000"]
    before
  show ?thesis by simp
qed

text \<open>
  C10. The split tiles each pool exactly: the sizes of the two CPUs' regions add up to
  the pool's size, and the App CPU's region starts where the Pro CPU's region ends, for
  IRAM and for DRAM. The two regions of a pool therefore share no address. Without the
  App CPU, both App CPU sizes are 0 and the Pro CPU's regions are the whole pools.
\<close>

theorem C10_split_tiles_pools:
  "PROCPU_IRAM_SIZE c + APPCPU_IRAM_SIZE c = IRAM_SIZE c \<and>
   APPCPU_IRAM_START c = PROCPU_IRAM_START c + PROCPU_IRAM_SIZE c \<and>
   PROCPU_DRAM_SIZE c + APPCPU_DRAM_SIZE c = DRAM_SIZE c \<and>
   APPCPU_DRAM_START c = PROCPU_DRAM_START c + PROCPU_DRAM_SIZE c \<and>
   region_addrs (procpu_iram_region c) \<inter> region_addrs (appcpu_iram_region c) = {} \<and>
   region_addrs (procpu_dram_region c) \<inter> region_addrs (appcpu_dram_region c) = {} \<and>
   (0 \<le> PROCPU_IRAM_SIZE c \<and> 0 \<le> APPCPU_IRAM_SIZE c \<longrightarrow>
      region_addrs (procpu_iram_region c) \<union> region_addrs (appcpu_iram_region c)
        = region_addrs (iram_region c)) \<and>
   (0 \<le> PROCPU_DRAM_SIZE c \<and> 0 \<le> APPCPU_DRAM_SIZE c \<longrightarrow>
      region_addrs (procpu_dram_region c) \<union> region_addrs (appcpu_dram_region c)
        = region_addrs (dram_region c)) \<and>
   (\<not> appcpu_defined c \<longrightarrow>
      APPCPU_IRAM_SIZE c = 0 \<and> APPCPU_DRAM_SIZE c = 0 \<and>
      procpu_iram_region c = iram_region c \<and> procpu_dram_region c = dram_region c)"
proof -
  have iram: "PROCPU_IRAM_SIZE c + APPCPU_IRAM_SIZE c = IRAM_SIZE c"
    "APPCPU_IRAM_START c = PROCPU_IRAM_START c + PROCPU_IRAM_SIZE c"
    by (simp_all add: PROCPU_IRAM_SIZE_def PROCPU_IRAM_START_def APPCPU_IRAM_START_def)
  have dram: "PROCPU_DRAM_SIZE c + APPCPU_DRAM_SIZE c = DRAM_SIZE c"
    "APPCPU_DRAM_START c = PROCPU_DRAM_START c + PROCPU_DRAM_SIZE c"
    by (simp_all add: PROCPU_DRAM_SIZE_def PROCPU_DRAM_START_def APPCPU_DRAM_START_def)
  have disjoint:
    "region_addrs (procpu_iram_region c) \<inter> region_addrs (appcpu_iram_region c) = {}"
    "region_addrs (procpu_dram_region c) \<inter> region_addrs (appcpu_dram_region c) = {}"
    by (auto simp: region_addrs_def region_end_def procpu_iram_region_def
        appcpu_iram_region_def procpu_dram_region_def appcpu_dram_region_def iram(2) dram(2))
  have cover_iram:
    "0 \<le> PROCPU_IRAM_SIZE c \<and> 0 \<le> APPCPU_IRAM_SIZE c \<longrightarrow>
       region_addrs (procpu_iram_region c) \<union> region_addrs (appcpu_iram_region c)
         = region_addrs (iram_region c)"
    using iram(1)
    by (auto simp: region_addrs_def region_end_def procpu_iram_region_def
        appcpu_iram_region_def iram_region_def iram(2) PROCPU_IRAM_START_def)
  have cover_dram:
    "0 \<le> PROCPU_DRAM_SIZE c \<and> 0 \<le> APPCPU_DRAM_SIZE c \<longrightarrow>
       region_addrs (procpu_dram_region c) \<union> region_addrs (appcpu_dram_region c)
         = region_addrs (dram_region c)"
    using dram(1)
    by (auto simp: region_addrs_def region_end_def procpu_dram_region_def
        appcpu_dram_region_def dram_region_def dram(2) PROCPU_DRAM_START_def)
  have single: "\<not> appcpu_defined c \<longrightarrow>
      APPCPU_IRAM_SIZE c = 0 \<and> APPCPU_DRAM_SIZE c = 0 \<and>
      procpu_iram_region c = iram_region c \<and> procpu_dram_region c = dram_region c"
    by (simp add: APPCPU_IRAM_SIZE_def APPCPU_DRAM_SIZE_def procpu_iram_region_def
        procpu_dram_region_def iram_region_def dram_region_def PROCPU_IRAM_START_def
        PROCPU_IRAM_SIZE_def PROCPU_DRAM_START_def PROCPU_DRAM_SIZE_def)
  show ?thesis
    by (rule conjI iram dram disjoint cover_iram cover_dram single)+
qed

text \<open>
  The split with the App CPU (64 KiB of each pool at its tail) and without it.
\<close>

theorem C10_split_tiles_pools_witness:
  "procpu_iram_region esp32_mcuboot_amp = \<lparr>rbase = 0x4007c000, rsize = 0x28000\<rparr> \<and>
   appcpu_iram_region esp32_mcuboot_amp = \<lparr>rbase = 0x400a4000, rsize = 0x10000\<rparr> \<and>
   iram_region esp32_mcuboot_amp = \<lparr>rbase = 0x4007c000, rsize = 0x38000\<rparr> \<and>
   region_addrs (procpu_iram_region esp32_mcuboot_amp)
     \<inter> region_addrs (appcpu_iram_region esp32_mcuboot_amp) = {} \<and>
   region_addrs (procpu_iram_region esp32_mcuboot_amp)
     \<union> region_addrs (appcpu_iram_region esp32_mcuboot_amp)
     = region_addrs (iram_region esp32_mcuboot_amp) \<and>
   region_addrs (procpu_dram_region esp32_mcuboot_amp)
     \<union> region_addrs (appcpu_dram_region esp32_mcuboot_amp)
     = region_addrs (dram_region esp32_mcuboot_amp) \<and>
   \<not> appcpu_defined esp32 \<and> APPCPU_IRAM_SIZE esp32 = 0 \<and> APPCPU_DRAM_SIZE esp32 = 0 \<and>
   procpu_iram_region esp32 = iram_region esp32 \<and>
   procpu_dram_region esp32 = dram_region esp32"
proof -
  have amp: "procpu_iram_region esp32_mcuboot_amp = \<lparr>rbase = 0x4007c000, rsize = 0x28000\<rparr>"
    "appcpu_iram_region esp32_mcuboot_amp = \<lparr>rbase = 0x400a4000, rsize = 0x10000\<rparr>"
    "iram_region esp32_mcuboot_amp = \<lparr>rbase = 0x4007c000, rsize = 0x38000\<rparr>"
    by (simp_all add: procpu_iram_region_def appcpu_iram_region_def iram_region_def
        memory_h_defs example_defs)
  have sizes: "0 \<le> PROCPU_IRAM_SIZE esp32_mcuboot_amp \<and> 0 \<le> APPCPU_IRAM_SIZE esp32_mcuboot_amp"
    "0 \<le> PROCPU_DRAM_SIZE esp32_mcuboot_amp \<and> 0 \<le> APPCPU_DRAM_SIZE esp32_mcuboot_amp"
    by (simp_all add: memory_h_defs example_defs)
  have single: "\<not> appcpu_defined esp32"
    by (simp add: appcpu_defined_def esp32_def)
  note at_amp = C10_split_tiles_pools [of esp32_mcuboot_amp]
  note at_single = C10_split_tiles_pools [of esp32]
  from at_amp sizes have tiles:
    "region_addrs (procpu_iram_region esp32_mcuboot_amp)
       \<inter> region_addrs (appcpu_iram_region esp32_mcuboot_amp) = {}"
    "region_addrs (procpu_iram_region esp32_mcuboot_amp)
       \<union> region_addrs (appcpu_iram_region esp32_mcuboot_amp)
       = region_addrs (iram_region esp32_mcuboot_amp)"
    "region_addrs (procpu_dram_region esp32_mcuboot_amp)
       \<union> region_addrs (appcpu_dram_region esp32_mcuboot_amp)
       = region_addrs (dram_region esp32_mcuboot_amp)"
    by simp_all
  from at_single single have parts: "APPCPU_IRAM_SIZE esp32 = 0" "APPCPU_DRAM_SIZE esp32 = 0"
    "procpu_iram_region esp32 = iram_region esp32"
    "procpu_dram_region esp32 = dram_region esp32"
    by simp_all
  show ?thesis
    by (rule conjI amp tiles single parts)+
qed

subsection \<open>Flash\<close>

text \<open>
  C9, as the specification states it, fails for the code partition: the header takes
  \<open>FLASH_CODE_START\<close> and \<open>FLASH_CODE_SIZE\<close> from the devicetree as they are. A code
  partition of \<open>0x100000\<close> bytes gives \<open>FLASH_CODE_SIZE = 0x100000\<close>, not \<open>0xff000\<close>.
  Only the two cached segments leave out the last 4 KiB, and they measure the flash
  (here the default of 4 MB, as \<open>CONFIG_FLASH_SIZE\<close> is not defined), not the partition.
\<close>

theorem C9_code_partition_counterexample:
  "dt_code_partition_size esp32 = 0x100000 \<and>
   FLASH_CODE_SIZE esp32 = 0x100000 \<and>
   FLASH_CODE_SIZE esp32 \<noteq> dt_code_partition_size esp32 - 0x1000 \<and>
   CONFIG_FLASH_SIZE esp32 = None \<and>
   IROM_SEG_LEN esp32 = 0x3ff000 \<and> DROM_SEG_LEN esp32 = 0x3ff000"
  by (simp add: flash_defs esp32_def)

text \<open>
  C9, amended. The two cached flash segments start at the fixed addresses \<open>0x400d0000\<close>
  (IROM) and \<open>0x3f400000\<close> (DROM) and have the length \<open>FLASH_SIZE - 0x1000\<close>, where
  \<open>FLASH_SIZE\<close> is \<open>CONFIG_FLASH_SIZE\<close> when that is defined and \<open>0x400000\<close> otherwise.
  The flash code partition, \<open>FLASH_CODE_START\<close> and \<open>FLASH_CODE_SIZE\<close>, is the
  devicetree's code partition unchanged, with no trailer left out. \<open>CACHE_ALIGN\<close> is
  \<open>CONFIG_MMU_PAGE_SIZE\<close>, and none of the flash values depends on it.
\<close>

theorem C9_flash_regions:
  "FLASH_SIZE c = (case CONFIG_FLASH_SIZE c of Some n \<Rightarrow> n | None \<Rightarrow> 0x400000) \<and>
   IROM_SEG_ORG = 0x400d0000 \<and> IROM_SEG_LEN c = FLASH_SIZE c - 0x1000 \<and>
   DROM_SEG_ORG = 0x3f400000 \<and> DROM_SEG_LEN c = FLASH_SIZE c - 0x1000 \<and>
   FLASH_CODE_START c = dt_code_partition_addr c \<and>
   FLASH_CODE_SIZE c = dt_code_partition_size c \<and>
   CACHE_ALIGN c = CONFIG_MMU_PAGE_SIZE c \<and>
   IROM_SEG_LEN (c\<lparr>CONFIG_MMU_PAGE_SIZE := p\<rparr>) = IROM_SEG_LEN c \<and>
   DROM_SEG_LEN (c\<lparr>CONFIG_MMU_PAGE_SIZE := p\<rparr>) = DROM_SEG_LEN c \<and>
   FLASH_CODE_START (c\<lparr>CONFIG_MMU_PAGE_SIZE := p\<rparr>) = FLASH_CODE_START c \<and>
   FLASH_CODE_SIZE (c\<lparr>CONFIG_MMU_PAGE_SIZE := p\<rparr>) = FLASH_CODE_SIZE c"
  by (simp add: flash_defs)

text \<open>The amended statement with an 8 MB flash given by Kconfig.\<close>

theorem C9_flash_regions_witness:
  "FLASH_SIZE esp32_flash_8M = 0x800000 \<and>
   IROM_SEG_LEN esp32_flash_8M = 0x7ff000 \<and> DROM_SEG_LEN esp32_flash_8M = 0x7ff000 \<and>
   FLASH_CODE_START esp32_flash_8M = 0x20000 \<and> FLASH_CODE_SIZE esp32_flash_8M = 0x100000 \<and>
   CACHE_ALIGN esp32_flash_8M = 0x10000"
proof -
  have inputs: "CONFIG_FLASH_SIZE esp32_flash_8M = Some 0x800000"
    "dt_code_partition_addr esp32_flash_8M = 0x20000"
    "dt_code_partition_size esp32_flash_8M = 0x100000"
    "CONFIG_MMU_PAGE_SIZE esp32_flash_8M = 0x10000"
    by (simp_all add: example_defs)
  from C9_flash_regions [of esp32_flash_8M] inputs show ?thesis by simp
qed

end
